theory Spec2Isabelle
  imports Complex_Main
begin

section \<open>Data model of the decision-tree classifier\<close>

text \<open>
  The classifier of \<^verbatim>\<open>src/decision_tree.ipynb\<close> works on untyped Python values.
  A feature value or a label is \<^verbatim>\<open>None\<close>, a number or a string.  A number (Python
  \<^verbatim>\<open>int\<close>, \<^verbatim>\<open>bool\<close> or \<^verbatim>\<open>float\<close>, which all pass
  \<^verbatim>\<open>isinstance(v, (int, float))\<close>) is represented by its numeric value, a rational:
  Python compares, hashes and counts numbers by value, so \<^verbatim>\<open>1\<close>, \<^verbatim>\<open>1.0\<close> and
  \<^verbatim>\<open>True\<close> are one value.  The arithmetic of the code is float arithmetic; it is
  modelled with its rounding, in the section on floating-point arithmetic below.
\<close>

datatype pyval = PNone | PNum rat | PStr string

text \<open>The exceptions the code can raise on lists of such values.\<close>

datatype error = IndexError | TypeError | ValueError

type_synonym row = "pyval list"
type_synonym part = "row list \<times> pyval list"

text \<open>
  A node is a Python dict with the key \<^verbatim>\<open>'type'\<close> equal to \<^verbatim>\<open>'leaf'\<close> (and a
  \<^verbatim>\<open>'class'\<close>) or \<^verbatim>\<open>'node'\<close> (and a feature index, an optional feature name, a
  threshold and two children).  Every dict is created by \<^verbatim>\<open>_build_tree\<close> and referenced
  once, so the tree is a value without sharing.
\<close>

datatype tree =
    Leaf (cls: pyval)
  | Node (feature_index: nat) (feature_name: "string option") (threshold: pyval)
      (left: tree) (right: tree)

text \<open>The instance attributes set by \<^verbatim>\<open>__init__\<close>.\<close>

record classifier =
  max_depth :: "int option"
  min_samples_split :: int
  tree :: "tree option"
  feature_names :: "string list option"

definition init :: "int option \<Rightarrow> int \<Rightarrow> classifier" where
  "init md mss = \<lparr>max_depth = md, min_samples_split = mss, tree = None, feature_names = None\<rparr>"

section \<open>Python primitives\<close>

text \<open>\<^verbatim>\<open>isinstance(v, (int, float))\<close>\<close>

fun is_num :: "pyval \<Rightarrow> bool" where
  "is_num (PNum _) = True"
| "is_num _ = False"

text \<open>\<^verbatim>\<open>xs[i]\<close> for an index that is never negative: IndexError out of range.\<close>

definition getitem :: "'a list \<Rightarrow> nat \<Rightarrow> error + 'a" where
  "getitem xs i = (if i < length xs then Inr (xs ! i) else Inl IndexError)"

text \<open>
  \<^verbatim>\<open>val <= threshold\<close>.  Every caller tests
  \<^verbatim>\<open>isinstance(threshold, (int, float))\<close> first, so the right operand is a number;
  a string or None on the left of a number raises TypeError in Python 3.
\<close>

fun py_le :: "pyval \<Rightarrow> pyval \<Rightarrow> error + bool" where
  "py_le (PNum a) (PNum b) = Inr (a \<le> b)"
| "py_le _ _ = Inl TypeError"

text \<open>\<^verbatim>\<open>xs.index(x)\<close>: the first position holding a value equal to \<open>x\<close>.\<close>

fun index :: "'a list \<Rightarrow> 'a \<Rightarrow> error + nat" where
  "index [] x = Inl ValueError"
| "index (a # as) x =
     (if a = x then Inr 0
      else case index as x of Inl e \<Rightarrow> Inl e | Inr i \<Rightarrow> Inr (Suc i))"

text \<open>
  \<^verbatim>\<open>Counter(xs)\<close>: a dict from the distinct values to their counts, in the order of first
  occurrence (dicts keep insertion order).
\<close>

fun counter_add :: "'a \<Rightarrow> ('a \<times> nat) list \<Rightarrow> ('a \<times> nat) list" where
  "counter_add x [] = [(x, 1)]"
| "counter_add x ((k, c) # kcs) =
     (if k = x then (k, c + 1) # kcs else (k, c) # counter_add x kcs)"

definition Counter :: "'a list \<Rightarrow> ('a \<times> nat) list" where
  "Counter xs = foldl (\<lambda>acc x. counter_add x acc) [] xs"

text \<open>
  \<^verbatim>\<open>Counter(xs).most_common(1)[0][0]\<close>: \<^verbatim>\<open>most_common(1)\<close> is \<^verbatim>\<open>max\<close> over the
  items by count, which keeps the first of several maximal items; on an empty Counter it is
  the empty list and \<^verbatim>\<open>[0]\<close> raises IndexError.
\<close>

fun first_max :: "('a \<times> nat) \<Rightarrow> ('a \<times> nat) list \<Rightarrow> ('a \<times> nat)" where
  "first_max best [] = best"
| "first_max best (kc # kcs) =
     (if snd kc > snd best then first_max kc kcs else first_max best kcs)"

definition most_common1 :: "'a list \<Rightarrow> error + 'a" where
  "most_common1 xs =
     (case Counter xs of [] \<Rightarrow> Inl IndexError | kc # kcs \<Rightarrow> Inr (fst (first_max kc kcs)))"

section \<open>Floating-point arithmetic\<close>

text \<open>
  A Python float is an IEEE 754 binary64 number, and every float operation of the code
  rounds its exact result to the nearest such number, ties to even.  \<open>fl\<close> is that
  rounding on the rationals: 53 significant bits in the normal range, multiples of
  \<open>two_to (- 1074)\<close> below it.  Overflow to infinity, NaN and the sign of zero are
  outside the model.
\<close>

text \<open>The number of binary digits of a positive integer.\<close>

function bitlen :: "int \<Rightarrow> int" where
  "bitlen a = (if a \<le> 0 then 0 else 1 + bitlen (a div 2))"
  by pat_completeness auto
termination
  by (relation "measure nat") auto

declare bitlen.simps [simp del]

text \<open>The power of two with an integer exponent.\<close>

definition two_to :: "int \<Rightarrow> rat" where
  "two_to q = (if 0 \<le> q then 2 ^ nat q else 1 / 2 ^ nat (- q))"

text \<open>
  The binary exponent of a rational other than 0: the \<open>e\<close> with
  \<open>two_to e \<le> \<bar>x\<bar> < two_to (e + 1)\<close>.  The difference of the bit lengths of numerator
  and denominator is \<open>e\<close> or \<open>e + 1\<close>.
\<close>

definition binexp :: "rat \<Rightarrow> int" where
  "binexp x =
     (let (a, b) = quotient_of \<bar>x\<bar>;
          d = bitlen a - bitlen b
      in if two_to d \<le> \<bar>x\<bar> then d else d - 1)"

text \<open>The nearest integer, the even one of two nearest.\<close>

definition round_even :: "rat \<Rightarrow> int" where
  "round_even r =
     (let f = \<lfloor>r\<rfloor>;
          d = r - of_int f
      in if d < 1 / 2 then f
         else if 1 / 2 < d then f + 1
         else if even f then f else f + 1)"

definition fl :: "rat \<Rightarrow> rat" where
  "fl x =
     (if x = 0 then 0
      else let q = max (binexp x - 52) (- 1074)
           in of_int (round_even (x / two_to q)) * two_to q)"

text \<open>
  What the code leaves to the platform it runs on:
  \<^item> the iteration order of a Python set: \<open>set_iter vs\<close> enumerates \<^verbatim>\<open>set(vs)\<close>;
  \<^item> the C library's \<^verbatim>\<open>pow(x, 2.0)\<close>, which \<^verbatim>\<open>x ** 2\<close> calls on a float and which
    is not correctly rounded in every C library;
  \<^item> how \<^verbatim>\<open>sum\<close> adds floats: with Neumaier's compensation in CPython 3.12 and later
    (the notebook's kernel is 3.12.9), by one rounded addition after the other before.
\<close>

record platform =
  set_iter :: "pyval list \<Rightarrow> pyval list"
  pow2 :: "rat \<Rightarrow> rat"
  compensated :: bool

text \<open>
  The platform of the worked inputs: sets iterate in the order of first occurrence, the
  square is correctly rounded, and \<^verbatim>\<open>sum\<close> is that of CPython 3.12.
\<close>

definition cpython :: platform where
  "cpython = \<lparr>set_iter = remdups, pow2 = (\<lambda>x. fl (x * x)), compensated = True\<rparr>"

text \<open>
  \<^verbatim>\<open>x ** 2\<close> on a float: CPython's \<^verbatim>\<open>float_pow\<close> answers the bases 0, 1 and -1
  itself and passes any other base, made positive for the even exponent, to
  \<^verbatim>\<open>pow\<close>.
\<close>

definition py_pow2 :: "platform \<Rightarrow> rat \<Rightarrow> rat" where
  "py_pow2 pf x = (if x = 0 then 0 else if \<bar>x\<bar> = 1 then 1 else pow2 pf \<bar>x\<bar>)"

text \<open>
  \<^verbatim>\<open>sum\<close> of a generator of floats, from the start value \<^verbatim>\<open>0\<close>.  The first float
  is added to the int 0 exactly.  From then on CPython 3.12 keeps the running sum
  \<^verbatim>\<open>f_result\<close> and a compensation \<^verbatim>\<open>c\<close>, and adds \<^verbatim>\<open>c\<close> at the end when it
  is not 0.
\<close>

fun neumaier :: "rat \<Rightarrow> rat \<Rightarrow> rat list \<Rightarrow> rat" where
  "neumaier f_result c [] = (if c \<noteq> 0 then fl (f_result + c) else f_result)"
| "neumaier f_result c (x # xs) =
     (let t = fl (f_result + x)
      in if \<bar>f_result\<bar> \<ge> \<bar>x\<bar>
         then neumaier t (fl (c + fl (fl (f_result - t) + x))) xs
         else neumaier t (fl (c + fl (fl (x - t) + f_result))) xs)"

definition py_sum :: "platform \<Rightarrow> rat list \<Rightarrow> rat" where
  "py_sum pf xs =
     (case xs of [] \<Rightarrow> 0
      | x # rest \<Rightarrow>
          if compensated pf then neumaier x 0 rest
          else foldl (\<lambda>f_result t. fl (f_result + t)) x rest)"

section \<open>Impurity Evaluator\<close>

text \<open>
  \<^verbatim>\<open>_gini\<close>.  \<^verbatim>\<open>count / n\<close> is the correctly rounded quotient of two ints, the
  square and the sum are those of the platform, and the subtraction from the int 1 rounds.
  On the empty list the generator is empty, no division happens and the result is 1.
\<close>

definition gini :: "platform \<Rightarrow> pyval list \<Rightarrow> rat" where
  "gini pf y =
     (let counts = Counter y;
          n = length y
      in fl (1 - py_sum pf (map (\<lambda>(k, count). py_pow2 pf (fl (of_nat count / of_nat n))) counts)))"

section \<open>Predictor\<close>

text \<open>\<^verbatim>\<open>_predict_sample\<close> on a node that is a dict.\<close>

fun predict_sample :: "tree \<Rightarrow> row \<Rightarrow> error + pyval" where
  "predict_sample (Leaf c) sample = Inr c"
| "predict_sample (Node fi nm th l r) sample =
     (case getitem sample fi of Inl e \<Rightarrow> Inl e
      | Inr val \<Rightarrow>
          if val = PNone then
            (case predict_sample l sample of Inl e \<Rightarrow> Inl e
             | Inr left_pred \<Rightarrow>
                 (case predict_sample r sample of Inl e \<Rightarrow> Inl e
                  | Inr right_pred \<Rightarrow> most_common1 [left_pred, right_pred]))
          else if is_num th then
            (case py_le val th of Inl e \<Rightarrow> Inl e
             | Inr b \<Rightarrow> if b then predict_sample l sample else predict_sample r sample)
          else
            (if val = th then predict_sample l sample else predict_sample r sample))"

text \<open>
  \<^verbatim>\<open>_predict_sample(self.tree, sample)\<close>: before a fit the attribute is None, and
  \<^verbatim>\<open>None['type']\<close> raises TypeError.
\<close>

definition predict_node :: "tree option \<Rightarrow> row \<Rightarrow> error + pyval" where
  "predict_node node sample =
     (case node of None \<Rightarrow> Inl TypeError | Some t \<Rightarrow> predict_sample t sample)"

text \<open>A list comprehension over calls that can raise: the first exception ends it.\<close>

fun collect :: "('a \<Rightarrow> error + 'b) \<Rightarrow> 'a list \<Rightarrow> error + 'b list" where
  "collect f [] = Inr []"
| "collect f (x # xs) =
     (case f x of Inl e \<Rightarrow> Inl e
      | Inr v \<Rightarrow> (case collect f xs of Inl e \<Rightarrow> Inl e | Inr vs \<Rightarrow> Inr (v # vs)))"

definition predict :: "classifier \<Rightarrow> row list \<Rightarrow> error + pyval list" where
  "predict self X = collect (predict_node (tree self)) X"

section \<open>Split Finder\<close>

text \<open>
  \<^verbatim>\<open>_split_dataset\<close>: the loop over \<^verbatim>\<open>zip(X, y)\<close> with its four accumulators.
  A row with None at the feature index is skipped.  The branch is chosen by the type of the
  threshold, not by the kind of the feature.
\<close>

fun split_loop :: "(row \<times> pyval) list \<Rightarrow> nat \<Rightarrow> pyval \<Rightarrow> part \<Rightarrow> part \<Rightarrow> error + part \<times> part" where
  "split_loop [] fi th L R = Inr (L, R)"
| "split_loop ((xi, yi) # rest) fi th (X_left, y_left) (X_right, y_right) =
     (case getitem xi fi of Inl e \<Rightarrow> Inl e
      | Inr val \<Rightarrow>
          if val = PNone then split_loop rest fi th (X_left, y_left) (X_right, y_right)
          else if is_num th then
            (case py_le val th of Inl e \<Rightarrow> Inl e
             | Inr b \<Rightarrow>
                 if b then split_loop rest fi th (X_left @ [xi], y_left @ [yi]) (X_right, y_right)
                 else split_loop rest fi th (X_left, y_left) (X_right @ [xi], y_right @ [yi]))
          else
            (if val = th
             then split_loop rest fi th (X_left @ [xi], y_left @ [yi]) (X_right, y_right)
             else split_loop rest fi th (X_left, y_left) (X_right @ [xi], y_right @ [yi])))"

definition split_dataset :: "row list \<Rightarrow> pyval list \<Rightarrow> nat \<Rightarrow> pyval \<Rightarrow> error + part \<times> part" where
  "split_dataset X y fi th = split_loop (zip X y) fi th ([], []) ([], [])"

text \<open>\<^verbatim>\<open>[x[feature_index] for x in X if x[feature_index] is not None]\<close>\<close>

fun column :: "row list \<Rightarrow> nat \<Rightarrow> error + pyval list" where
  "column [] fi = Inr []"
| "column (x # X) fi =
     (case getitem x fi of Inl e \<Rightarrow> Inl e
      | Inr v \<Rightarrow>
          (case column X fi of Inl e \<Rightarrow> Inl e
           | Inr vs \<Rightarrow> Inr (if v = PNone then vs else v # vs)))"

text \<open>
  The candidate thresholds of one feature.  When every observed value is a number they are
  the midpoints of consecutive sorted distinct values; otherwise they are the elements of
  \<^verbatim>\<open>set(values)\<close> in the iteration order of the platform.  A midpoint
  \<^verbatim>\<open>(a + b) / 2\<close> is the rounded half of the sum: the sum of two ints is exact and
  their quotient correctly rounded, and halving the rounded sum of two floats is exact.
  (An int beyond \<open>two_to 53\<close> next to a float, and a half below the normal range, are
  outside the model.)
\<close>

fun midpoints :: "rat list \<Rightarrow> rat list" where
  "midpoints (a # b # rest) = fl ((a + b) / 2) # midpoints (b # rest)"
| "midpoints _ = []"

definition numbers :: "pyval list \<Rightarrow> rat list" where
  "numbers vs = concat (map (\<lambda>v. case v of PNum a \<Rightarrow> [a] | _ \<Rightarrow> []) vs)"

definition thresholds :: "platform \<Rightarrow> pyval list \<Rightarrow> pyval list" where
  "thresholds pf vs =
     (if list_all is_num vs
      then map PNum (midpoints (sort (remdups (numbers vs))))
      else set_iter pf vs)"

text \<open>
  The running best candidate: \<^verbatim>\<open>best_gain\<close> and, set together whenever a candidate
  wins, \<^verbatim>\<open>best_feature\<close>, \<^verbatim>\<open>best_threshold\<close> and \<^verbatim>\<open>best_splits\<close> (all three
  None until then).
\<close>

type_synonym best = "rat \<times> (nat \<times> pyval \<times> part \<times> part) option"

fun threshold_loop ::
  "platform \<Rightarrow> row list \<Rightarrow> pyval list \<Rightarrow> rat \<Rightarrow> nat \<Rightarrow> pyval list \<Rightarrow> best \<Rightarrow> error + best" where
  "threshold_loop pf X y base_gini fi [] b = Inr b"
| "threshold_loop pf X y base_gini fi (th # ths) (best_gain, best) =
     (case split_dataset X y fi th of Inl e \<Rightarrow> Inl e
      | Inr ((X_left, y_left), (X_right, y_right)) \<Rightarrow>
          if length y_left = 0 \<or> length y_right = 0
          then threshold_loop pf X y base_gini fi ths (best_gain, best)
          else
            (let n = length y_left + length y_right;
                 gini_left = gini pf y_left;
                 gini_right = gini pf y_right;
                 weighted_gini = fl (fl (fl (of_nat (length y_left) / of_nat n) * gini_left)
                                   + fl (fl (of_nat (length y_right) / of_nat n) * gini_right));
                 gain = fl (base_gini - weighted_gini)
             in if gain > best_gain
                then threshold_loop pf X y base_gini fi ths
                       (gain, Some (fi, th, (X_left, y_left), (X_right, y_right)))
                else threshold_loop pf X y base_gini fi ths (best_gain, best)))"

fun feature_loop ::
  "platform \<Rightarrow> row list \<Rightarrow> pyval list \<Rightarrow> rat \<Rightarrow> nat list \<Rightarrow> best \<Rightarrow> error + best" where
  "feature_loop pf X y base_gini [] b = Inr b"
| "feature_loop pf X y base_gini (fi # fis) b =
     (case column X fi of Inl e \<Rightarrow> Inl e
      | Inr vals \<Rightarrow>
          (case threshold_loop pf X y base_gini fi (thresholds pf vals) b of Inl e \<Rightarrow> Inl e
           | Inr b' \<Rightarrow> feature_loop pf X y base_gini fis b'))"

text \<open>\<^verbatim>\<open>_best_split\<close>; \<^verbatim>\<open>X[0]\<close> raises IndexError on an empty table.\<close>

definition best_split :: "platform \<Rightarrow> row list \<Rightarrow> pyval list \<Rightarrow> error + best" where
  "best_split pf X y =
     (let base_gini = gini pf y
      in case X of [] \<Rightarrow> Inl IndexError
         | x0 # _ \<Rightarrow> feature_loop pf X y base_gini [0 ..< length x0] (0, None))"

section \<open>Tree Builder\<close>

text \<open>The leaf returned on a stopping match: \<^verbatim>\<open>Counter(y).most_common(1)[0][0]\<close>.\<close>

definition leaf_of :: "pyval list \<Rightarrow> error + tree" where
  "leaf_of y =
     (case most_common1 y of Inl e \<Rightarrow> Inl e | Inr leaf_label \<Rightarrow> Inr (Leaf leaf_label))"

text \<open>\<^verbatim>\<open>self.feature_names[feature_index] if self.feature_names else None\<close>\<close>

definition name_of :: "string list option \<Rightarrow> nat \<Rightarrow> error + string option" where
  "name_of names fi =
     (case names of None \<Rightarrow> Inr None
      | Some ns \<Rightarrow>
          if ns = [] then Inr None
          else (case getitem ns fi of Inl e \<Rightarrow> Inl e | Inr nm \<Rightarrow> Inr (Some nm)))"

text \<open>
  \<^verbatim>\<open>_build_tree\<close>.  The recursion is on the two partitions of the winning split;
  that it terminates is proved below, after the facts about \<open>best_split\<close> that it needs.
  The feature name is looked up when the dict is built, after both recursive calls.
\<close>

function (domintros) build_tree ::
  "platform \<Rightarrow> classifier \<Rightarrow> row list \<Rightarrow> pyval list \<Rightarrow> int \<Rightarrow> error + tree" where
  "build_tree pf self X y depth =
     (let num_samples = length y;
          num_labels = length (remdups y)
      in if (case max_depth self of None \<Rightarrow> False | Some m \<Rightarrow> depth \<ge> m)
            \<or> num_labels = 1 \<or> int num_samples < min_samples_split self
         then leaf_of y
         else
           (case best_split pf X y of Inl e \<Rightarrow> Inl e
            | Inr (gain, None) \<Rightarrow> leaf_of y
            | Inr (gain, Some (fi, th, (X_left, y_left), (X_right, y_right))) \<Rightarrow>
                if gain = 0 then leaf_of y
                else
                  (case build_tree pf self X_left y_left (depth + 1) of Inl e \<Rightarrow> Inl e
                   | Inr left_branch \<Rightarrow>
                       (case build_tree pf self X_right y_right (depth + 1) of
                          Inl e \<Rightarrow> Inl e
                        | Inr right_branch \<Rightarrow>
                            (case name_of (feature_names self) fi of Inl e \<Rightarrow> Inl e
                             | Inr nm \<Rightarrow> Inr (Node fi nm th left_branch right_branch))))))"
  by pat_completeness auto

section \<open>Pruner\<close>

text \<open>\<^verbatim>\<open>sum(yp != yt for yp, yt in zip(y_pred, y_val))\<close>\<close>

definition mismatches :: "pyval list \<Rightarrow> pyval list \<Rightarrow> nat" where
  "mismatches y_pred y_val = length (filter (\<lambda>(yp, yt). yp \<noteq> yt) (zip y_pred y_val))"

text \<open>\<^verbatim>\<open>y_val[X_val.index(x)]\<close>\<close>

definition label_at :: "row list \<Rightarrow> pyval list \<Rightarrow> row \<Rightarrow> error + pyval" where
  "label_at X_val y_val x =
     (case index X_val x of Inl e \<Rightarrow> Inl e | Inr i \<Rightarrow> getitem y_val i)"

text \<open>
  The loop that fills \<^verbatim>\<open>combined_labels\<close>; its first argument is the part of
  \<^verbatim>\<open>X_val\<close> still to visit.  For a numeric threshold the comparison is evaluated
  (and can raise), and both of its branches append the same label.
\<close>

fun combined_loop :: "row list \<Rightarrow> row list \<Rightarrow> pyval list \<Rightarrow> nat \<Rightarrow> pyval \<Rightarrow> pyval list \<Rightarrow> error + pyval list" where
  "combined_loop [] X_val y_val fi th combined_labels = Inr combined_labels"
| "combined_loop (x # xs) X_val y_val fi th combined_labels =
     (case getitem x fi of Inl e \<Rightarrow> Inl e
      | Inr val \<Rightarrow>
          if val = PNone then combined_loop xs X_val y_val fi th combined_labels
          else
            (case (if is_num th
                   then (case py_le val th of Inl e \<Rightarrow> Inl e
                         | Inr b \<Rightarrow>
                             if b then label_at X_val y_val x else label_at X_val y_val x)
                   else label_at X_val y_val x) of
               Inl e \<Rightarrow> Inl e
             | Inr l \<Rightarrow> combined_loop xs X_val y_val fi th (combined_labels @ [l])))"

text \<open>
  \<^verbatim>\<open>_prune\<close> mutates the dict of the node in place and returns nothing; the model returns
  the tree that the dict holds afterwards.  When an exception is raised the tree left behind
  is not part of the result.
\<close>

fun prune :: "tree \<Rightarrow> row list \<Rightarrow> pyval list \<Rightarrow> error + tree" where
  "prune (Leaf c) X_val y_val = Inr (Leaf c)"
| "prune (Node fi nm th l r) X_val y_val =
     (case prune l X_val y_val of Inl e \<Rightarrow> Inl e
      | Inr l' \<Rightarrow>
     (case prune r X_val y_val of Inl e \<Rightarrow> Inl e
      | Inr r' \<Rightarrow>
     (let node = Node fi nm th l' r'
      in if is_Leaf l' \<and> is_Leaf r' then
           (case collect (predict_sample node) X_val of Inl e \<Rightarrow> Inl e
            | Inr y_pred \<Rightarrow>
           (let error_before = mismatches y_pred y_val
            in case combined_loop X_val X_val y_val fi th [] of Inl e \<Rightarrow> Inl e
               | Inr combined_labels \<Rightarrow>
              (case (if combined_labels \<noteq> [] then most_common1 combined_labels
                     else most_common1 y_val) of Inl e \<Rightarrow> Inl e
               | Inr majority_class \<Rightarrow>
              (let pruned = Leaf majority_class
               in case collect (predict_sample pruned) X_val of Inl e \<Rightarrow> Inl e
                  | Inr y_pred_pruned \<Rightarrow>
                 (let error_after = mismatches y_pred_pruned y_val
                  in if error_after > error_before then Inr node else Inr pruned)))))
         else Inr node)))"

section \<open>fit\<close>

text \<open>
  \<^verbatim>\<open>fit\<close> stores the feature names, builds the tree at depth 0 and, when both validation
  arguments are given (not None, so two empty lists count), prunes it.  There is no check of
  the arguments before the call of \<^verbatim>\<open>_build_tree\<close>.  The model returns the updated
  instance, or the first exception; the attributes already assigned when an exception is
  raised are not part of the result.
\<close>

definition fit ::
  "platform \<Rightarrow> classifier \<Rightarrow> row list \<Rightarrow> pyval list \<Rightarrow> string list option \<Rightarrow>
   row list option \<Rightarrow> pyval list option \<Rightarrow> error + classifier" where
  "fit pf self X y names X_val y_val =
     (let self1 = self\<lparr>feature_names := names\<rparr>
      in case build_tree pf self1 X y 0 of Inl e \<Rightarrow> Inl e
         | Inr t \<Rightarrow>
             (case (X_val, y_val) of
                (Some Xv, Some yv) \<Rightarrow>
                  (case prune t Xv yv of Inl e \<Rightarrow> Inl e
                   | Inr t' \<Rightarrow> Inr (self1\<lparr>tree := Some t'\<rparr>))
              | _ \<Rightarrow> Inr (self1\<lparr>tree := Some t\<rparr>)))"

section \<open>Notions used in the statements\<close>

text \<open>The number of edges on the longest path from the root to a leaf.\<close>

fun height :: "tree \<Rightarrow> nat" where
  "height (Leaf c) = 0"
| "height (Node fi nm th l r) = Suc (max (height l) (height r))"

text \<open>
  What holds of the two partitions of a split of \<open>n\<close> zipped rows on feature
  \<open>fi\<close>: samples and labels stay parallel, the two partitions hold at most \<open>n\<close>
  rows together, and every row in them has a value other than None at the feature.
\<close>

definition split_ok :: "nat \<Rightarrow> nat \<Rightarrow> part \<Rightarrow> part \<Rightarrow> bool" where
  "split_ok n fi L R \<longleftrightarrow>
     length (fst L) = length (snd L) \<and> length (fst R) = length (snd R) \<and>
     length (snd L) + length (snd R) \<le> n \<and>
     (\<forall>x \<in> set (fst L) \<union> set (fst R). fi < length x \<and> x ! fi \<noteq> PNone)"

text \<open>A running best candidate holds two non-empty partitions of that kind.\<close>

definition best_ok :: "nat \<Rightarrow> best \<Rightarrow> bool" where
  "best_ok n b \<longleftrightarrow>
     (case snd b of None \<Rightarrow> True
      | Some (fi, th, L, R) \<Rightarrow> snd L \<noteq> [] \<and> snd R \<noteq> [] \<and> split_ok n fi L R)"

text \<open>The gain of a candidate, as \<open>threshold_loop\<close> computes it.\<close>

definition split_gain :: "platform \<Rightarrow> rat \<Rightarrow> pyval list \<Rightarrow> pyval list \<Rightarrow> rat" where
  "split_gain pf base_gini y_left y_right =
     fl (base_gini
         - fl (fl (fl (of_nat (length y_left) / of_nat (length y_left + length y_right))
                   * gini pf y_left)
               + fl (fl (of_nat (length y_right) / of_nat (length y_left + length y_right))
                     * gini pf y_right)))"



text \<open>The distinct values of a list in the order of their first occurrence.\<close>

definition first_seen :: "'a list \<Rightarrow> 'a list" where
  "first_seen xs = rev (remdups (rev xs))"

text \<open>A small training table: two numeric features, four rows.\<close>

definition train_X :: "row list" where
  "train_X = [[PNum 0, PNum 0], [PNum 0, PNum 1], [PNum 1, PNum 0], [PNum 1, PNum 0]]"

definition train_y :: "pyval list" where
  "train_y = [PStr ''A'', PStr ''B'', PStr ''B'', PStr ''B'']"

text \<open>
  The number of validation mismatches of the prediction rooted at a tree:
  the error count that \<open>prune\<close> computes before and after a collapse.
\<close>

definition validation_errors :: "tree \<Rightarrow> row list \<Rightarrow> pyval list \<Rightarrow> error + nat" where
  "validation_errors t X_val y_val =
     (case collect (predict_sample t) X_val of Inl e \<Rightarrow> Inl e
      | Inr y_pred \<Rightarrow> Inr (mismatches y_pred y_val))"

text \<open>A validation set for the tree built from the small training table; its rows are distinct.\<close>

definition val_X :: "row list" where
  "val_X = [[PNum 0, PNum 0], [PNum 0, PNum 1], [PNum 1, PNum 0], [PNum 2, PNum 0], [PNum 3, PNum 0]]"

definition val_y :: "pyval list" where
  "val_y = [PStr ''A'', PStr ''B'', PStr ''B'', PStr ''B'', PStr ''B'']"

text \<open>A validation set with one row three times, under different labels.\<close>

definition dup_X :: "row list" where
  "dup_X = [[PNum 1], [PNum 1], [PNum 1]]"

definition dup_y :: "pyval list" where
  "dup_y = [PStr ''A'', PStr ''B'', PStr ''B'']"

section \<open>The partitions of a split\<close>

lemma split_loop_ok:
  "split_loop rows fi th L R = Inr (L', R') \<Longrightarrow> split_ok n fi L R \<Longrightarrow>
   split_ok (n + length rows) fi L' R'"
proof (induction rows fi th L R arbitrary: n rule: split_loop.induct)
  case (1 fi th L R)
  then show ?case by simp
next
  case (2 xi yi rest fi th X_left y_left X_right y_right)
  show ?case
  proof (cases "getitem xi fi")
    case (Inl e)
    with 2(6) show ?thesis by simp
  next
    case (Inr val)
    then have fi: "fi < length xi" "val = xi ! fi"
      by (auto simp: getitem_def split: if_splits)
    show ?thesis
    proof (cases "val = PNone")
      case True
      with 2(6) Inr have "split_loop rest fi th (X_left, y_left) (X_right, y_right) = Inr (L', R')"
        by simp
      from "2.IH"(1)[OF Inr True this 2(7)] show ?thesis
        by (auto simp: split_ok_def)
    next
      case False
      have okL: "split_ok (Suc n) fi (X_left @ [xi], y_left @ [yi]) (X_right, y_right)"
        using 2(7) fi False by (auto simp: split_ok_def)
      have okR: "split_ok (Suc n) fi (X_left, y_left) (X_right @ [xi], y_right @ [yi])"
        using 2(7) fi False by (auto simp: split_ok_def)
      show ?thesis
      proof (cases "is_num th")
        case True
        show ?thesis
        proof (cases "py_le val th")
          case (Inl e)
          with 2(6) \<open>getitem xi fi = Inr val\<close> False True show ?thesis by simp
        next
          case (Inr b)
          show ?thesis
          proof (cases b)
            case True
            with 2(6) \<open>getitem xi fi = Inr val\<close> False \<open>is_num th\<close> Inr
            have "split_loop rest fi th (X_left @ [xi], y_left @ [yi]) (X_right, y_right) = Inr (L', R')"
              by simp
            from "2.IH"(2)[OF \<open>getitem xi fi = Inr val\<close> False \<open>is_num th\<close> Inr True this okL]
            show ?thesis by simp
          next
            case bF: False
            with 2(6) \<open>getitem xi fi = Inr val\<close> False \<open>is_num th\<close> Inr
            have "split_loop rest fi th (X_left, y_left) (X_right @ [xi], y_right @ [yi]) = Inr (L', R')"
              by simp
            from "2.IH"(3)[OF \<open>getitem xi fi = Inr val\<close> False \<open>is_num th\<close> Inr bF this okR]
            show ?thesis by simp
          qed
        qed
      next
        case nn: False
        show ?thesis
        proof (cases "val = th")
          case True
          with 2(6) \<open>getitem xi fi = Inr val\<close> False nn
          have "split_loop rest fi th (X_left @ [xi], y_left @ [yi]) (X_right, y_right) = Inr (L', R')"
            by simp
          from "2.IH"(4)[OF \<open>getitem xi fi = Inr val\<close> False nn True this okL]
          show ?thesis by simp
        next
          case vF: False
          with 2(6) \<open>getitem xi fi = Inr val\<close> False nn
          have "split_loop rest fi th (X_left, y_left) (X_right @ [xi], y_right @ [yi]) = Inr (L', R')"
            by simp
          from "2.IH"(5)[OF \<open>getitem xi fi = Inr val\<close> False nn vF this okR]
          show ?thesis by simp
        qed
      qed
    qed
  qed
qed


lemma split_dataset_ok:
  assumes "split_dataset X y fi th = Inr (L, R)"
  shows "split_ok (min (length X) (length y)) fi L R"
proof -
  have "split_ok 0 fi ([], []) ([], [])"
    by (simp add: split_ok_def)
  with assms have "split_ok (0 + length (zip X y)) fi L R"
    unfolding split_dataset_def by (rule split_loop_ok)
  then show ?thesis
    by simp
qed

lemma threshold_loop_Cons:
  assumes "split_dataset X y fi th = Inr ((X_left, y_left), (X_right, y_right))"
  shows "threshold_loop pf X y base fi (th # ths) (best_gain, best) =
     (if y_left = [] \<or> y_right = [] then threshold_loop pf X y base fi ths (best_gain, best)
      else if split_gain pf base y_left y_right > best_gain
      then threshold_loop pf X y base fi ths
             (split_gain pf base y_left y_right, Some (fi, th, (X_left, y_left), (X_right, y_right)))
      else threshold_loop pf X y base fi ths (best_gain, best))"
  using assms by (simp add: Let_def split_gain_def)

lemma threshold_loop_ok:
  "threshold_loop pf X y base fi ths b = Inr b' \<Longrightarrow> best_ok (min (length X) (length y)) b \<Longrightarrow> best_ok (min (length X) (length y)) b'"
proof (induction ths arbitrary: b)
  case Nil
  then show ?case by simp
next
  case (Cons th ths)
  obtain best_gain best where b: "b = (best_gain, best)"
    by (cases b)
  from Cons.prems(1) obtain X_left y_left X_right y_right where
    sd: "split_dataset X y fi th = Inr ((X_left, y_left), (X_right, y_right))"
    unfolding b by (cases "split_dataset X y fi th") auto
  note step = threshold_loop_Cons[OF sd, of pf base ths best_gain best]
  have ok: "split_ok (min (length X) (length y)) fi (X_left, y_left) (X_right, y_right)"
    by (rule split_dataset_ok[OF sd])
  show ?case
  proof (cases "y_left = [] \<or> y_right = []")
    case True
    with Cons.prems(1) step have "threshold_loop pf X y base fi ths b = Inr b'"
      by (simp only: b if_True)
    then show ?thesis
      using Cons.prems(2) by (rule Cons.IH)
  next
    case False
    show ?thesis
    proof (cases "split_gain pf base y_left y_right > best_gain")
      case True
      let ?b = "(split_gain pf base y_left y_right, Some (fi, th, (X_left, y_left), (X_right, y_right)))"
      from Cons.prems(1) step False True have "threshold_loop pf X y base fi ths ?b = Inr b'"
        by (simp only: b if_True if_False)
      moreover have "best_ok (min (length X) (length y)) ?b"
        using ok False by (simp add: best_ok_def)
      ultimately show ?thesis
        by (rule Cons.IH)
    next
      case gF: False
      from Cons.prems(1) step False gF have "threshold_loop pf X y base fi ths b = Inr b'"
        by (simp only: b if_True if_False)
      then show ?thesis
        using Cons.prems(2) by (rule Cons.IH)
    qed
  qed
qed

lemma feature_loop_ok:
  "feature_loop pf X y base fis b = Inr b' \<Longrightarrow> best_ok (min (length X) (length y)) b \<Longrightarrow> best_ok (min (length X) (length y)) b'"
proof (induction fis arbitrary: b)
  case Nil
  then show ?case by simp
next
  case (Cons fi fis)
  from Cons.prems(1) obtain vals b1 where
    "threshold_loop pf X y base fi (thresholds pf vals) b = Inr b1"
    "feature_loop pf X y base fis b1 = Inr b'"
    by (auto split: sum.splits)
  with Cons.IH Cons.prems(2) show ?case
    by (blast intro: threshold_loop_ok)
qed

lemma best_split_ok:
  assumes "best_split pf X y = Inr b"
  shows "best_ok (min (length X) (length y)) b"
proof (cases X)
  case Nil
  with assms show ?thesis
    by (simp add: best_split_def)
next
  case (Cons x0 rest)
  have start: "best_ok (min (length X) (length y)) (0, None)"
    by (simp add: best_ok_def)
  from assms have "feature_loop pf X y (gini pf y) [0 ..< length x0] (0, None) = Inr b"
    by (simp add: best_split_def Cons)
  then show ?thesis
    using start by (rule feature_loop_ok)
qed

lemma best_split_smaller:
  assumes "best_split pf X y = Inr (gain, Some (fi, th, (X_left, y_left), (X_right, y_right)))"
  shows "length y_left < length y" and "length y_right < length y"
    and "length X_left < length X" and "length X_right < length X"
proof -
  from best_split_ok[OF assms]
  have "0 < length y_left" "0 < length y_right"
       "length y_left + length y_right \<le> min (length X) (length y)"
       "length X_left = length y_left" "length X_right = length y_right"
    by (simp_all add: best_ok_def split_ok_def)
  then show "length y_left < length y" and "length y_right < length y"
    and "length X_left < length X" and "length X_right < length X"
    by arith+
qed

section \<open>Termination of the Tree Builder\<close>

lemma build_tree_dom_all: "build_tree_dom (pf, self, X, y, depth)"
proof (induction "length y" arbitrary: X y depth rule: less_induct)
  case less
  show ?case
    by (rule build_tree.domintros) (auto intro: less dest: best_split_smaller)
qed

termination build_tree
  using build_tree_dom_all by auto

declare build_tree.simps [simp del]

section \<open>Impurity Evaluator: the Gini formula and its range\<close>


lemma set_first_seen [simp]: "set (first_seen xs) = set xs"
  by (simp add: first_seen_def)

lemma distinct_first_seen [simp]: "distinct (first_seen xs)"
  by (simp add: first_seen_def)







text \<open>
  The rounding at work: the doubles written \<^verbatim>\<open>0.1\<close> and \<^verbatim>\<open>1/3\<close> in Python, and
  two ties, which go to the neighbour with the even last bit.
\<close>

lemma fl_examples:
  "fl (1 / 10) = 3602879701896397 / 36028797018963968"
  "fl (1 / 3) = 6004799503160661 / 18014398509481984"
  "fl (1 + two_to (- 53)) = 1"
  "fl (1 + 3 * two_to (- 53)) = 1 + two_to (- 51)"
  by code_simp+











section \<open>Tree Builder: the results of a call\<close>

lemma leaf_of_is_Leaf: "leaf_of y = Inr t \<Longrightarrow> is_Leaf t"
  by (auto simp: leaf_of_def split: sum.splits)

lemma build_tree_result:
  assumes "build_tree pf self X y depth = Inr t"
  obtains (leaf) "leaf_of y = Inr t"
  | (node) gain fi th X_left y_left X_right y_right left_branch right_branch nm where
      "\<not> (case max_depth self of None \<Rightarrow> False | Some m \<Rightarrow> depth \<ge> m)"
      "best_split pf X y = Inr (gain, Some (fi, th, (X_left, y_left), (X_right, y_right)))"
      "build_tree pf self X_left y_left (depth + 1) = Inr left_branch"
      "build_tree pf self X_right y_right (depth + 1) = Inr right_branch"
      "t = Node fi nm th left_branch right_branch"
  using assms
  by (subst (asm) build_tree.simps)
     (auto simp: Let_def split: if_splits sum.splits option.splits prod.splits)

lemma build_tree_height:
  assumes "max_depth self = Some m"
  shows "build_tree pf self X y depth = Inr t \<Longrightarrow> depth + int (height t) \<le> max depth m"
proof (induction "length y" arbitrary: X y depth t rule: less_induct)
  case less
  from less.prems show ?case
  proof (cases rule: build_tree_result)
    case leaf
    then have "is_Leaf t"
      by (rule leaf_of_is_Leaf)
    then show ?thesis
      by (cases t) auto
  next
    case (node gain fi th X_left y_left X_right y_right left_branch right_branch nm)
    from node(1) assms have d: "depth + 1 \<le> m"
      by simp
    have "length y_left < length y" and "length y_right < length y"
      by (rule best_split_smaller [OF node(2)])+
    from less.hyps [OF this(1) node(3)] less.hyps [OF this(2) node(4)] d
    have "depth + 1 + int (height left_branch) \<le> m"
     and "depth + 1 + int (height right_branch) \<le> m"
      by simp_all
    then show ?thesis
      unfolding node(5) by simp
  qed
qed

lemma build_tree_height_samples:
  "build_tree pf self X y depth = Inr t \<Longrightarrow> height t < max 1 (length y)"
proof (induction "length y" arbitrary: X y depth t rule: less_induct)
  case less
  from less.prems show ?case
  proof (cases rule: build_tree_result)
    case leaf
    then have "is_Leaf t"
      by (rule leaf_of_is_Leaf)
    then show ?thesis
      by (cases t) auto
  next
    case (node gain fi th X_left y_left X_right y_right left_branch right_branch nm)
    from best_split_ok [OF node(2)]
    have "0 < length y_left" "0 < length y_right"
         "length y_left + length y_right \<le> min (length X) (length y)"
      by (simp_all add: best_ok_def split_ok_def)
    then have sz: "0 < length y_left" "0 < length y_right"
         "length y_left + length y_right \<le> length y"
      by arith+
    then have "length y_left < length y" and "length y_right < length y"
      by arith+
    from less.hyps [OF this(1) node(3)] less.hyps [OF this(2) node(4)] sz
    have "height left_branch < length y_left" and "height right_branch < length y_right"
      by simp_all
    with sz show ?thesis
      unfolding node(5) by simp
  qed
qed

text \<open>The builder on the small training table.\<close>

lemma build_tree_train_depth1:
  "build_tree cpython (init (Some 1) 2) train_X train_y 0
     = Inr (Node 0 None (PNum (1 / 2)) (Leaf (PStr ''A'')) (Leaf (PStr ''B'')))"
  by code_simp

lemma best_split_train:
  "best_split cpython train_X train_y =
     Inr (1 / 8, Some (0, PNum (1 / 2),
       ([[PNum 0, PNum 0], [PNum 0, PNum 1]], [PStr ''A'', PStr ''B'']),
       ([[PNum 1, PNum 0], [PNum 1, PNum 0]], [PStr ''B'', PStr ''B''])))"
  by code_simp

lemma build_tree_train:
  "build_tree cpython (init None 2) train_X train_y 0 =
     Inr (Node 0 None (PNum (1 / 2))
            (Node 1 None (PNum (1 / 2)) (Leaf (PStr ''A'')) (Leaf (PStr ''B'')))
            (Leaf (PStr ''B'')))"
  by code_simp

section \<open>Tree Builder: the depth bound\<close>

text \<open>
  Claim C6.  With \<open>max_depth\<close> configured as \<open>m\<close> (not negative), a tree returned by
  \<open>build_tree\<close> called at depth 0 has no root-to-leaf path longer than \<open>m\<close>, and
  whatever a call at a depth of \<open>m\<close> or more returns is a leaf.
\<close>

theorem build_tree_max_depth:
  assumes "max_depth self = Some m" and "0 \<le> m"
  shows "(\<forall>t. build_tree pf self X y 0 = Inr t \<longrightarrow> int (height t) \<le> m)
       \<and> (\<forall>X' y' d t'. m \<le> d \<longrightarrow> build_tree pf self X' y' d = Inr t' \<longrightarrow> is_Leaf t')"
proof (intro conjI allI impI)
  fix t assume "build_tree pf self X y 0 = Inr t"
  from build_tree_height [OF assms(1) this] assms(2) show "int (height t) \<le> m"
    by simp
next
  fix X' y' d t'
  assume "m \<le> d" and "build_tree pf self X' y' d = Inr t'"
  from build_tree_height [OF assms(1) this(2)] this(1) have "height t' = 0"
    by simp
  then show "is_Leaf t'"
    by (cases t') auto
qed

theorem build_tree_max_depth_witness:
  "max_depth (init (Some 1) 2) = Some 1 \<and> (0::int) \<le> 1
   \<and> build_tree cpython (init (Some 1) 2) train_X train_y 0
       = Inr (Node 0 None (PNum (1 / 2)) (Leaf (PStr ''A'')) (Leaf (PStr ''B'')))
   \<and> int (height (Node 0 None (PNum (1 / 2)) (Leaf (PStr ''A'')) (Leaf (PStr ''B'')))) \<le> 1"
  using build_tree_max_depth [of "init (Some 1) 2" 1 cpython train_X train_y]
        build_tree_train_depth1
  by (simp add: init_def)

section \<open>Tree Builder: termination without a depth limit\<close>

text \<open>
  Claim C9.  For every input, with or without \<open>max_depth\<close>, the recursion of
  \<open>build_tree\<close> is well-founded (the input is in the accessible part
  \<open>build_tree_dom\<close> of its call relation).  The reason is the split it recurses on:
  both partitions are non-empty, samples and labels stay parallel, no row of a partition
  has None at the split feature, and each partition has strictly fewer labels than the
  parent, so the number of labels decreases along every chain of calls.  A returned tree
  is therefore less deep than the number of labels.
\<close>

theorem build_tree_terminates:
  "build_tree_dom (pf, self, X, y, depth)
   \<and> (\<forall>gain fi th X_left y_left X_right y_right.
        best_split pf X y = Inr (gain, Some (fi, th, (X_left, y_left), (X_right, y_right)))
        \<longrightarrow> y_left \<noteq> [] \<and> y_right \<noteq> []
          \<and> length X_left = length y_left \<and> length X_right = length y_right
          \<and> (\<forall>x \<in> set X_left \<union> set X_right. fi < length x \<and> x ! fi \<noteq> PNone)
          \<and> length y_left < length y \<and> length y_right < length y
          \<and> length X_left < length X \<and> length X_right < length X)
   \<and> (\<forall>t. build_tree pf self X y depth = Inr t \<longrightarrow> height t < max 1 (length y))"
proof (intro conjI allI impI)
  show "build_tree_dom (pf, self, X, y, depth)"
    by (rule build_tree_dom_all)
next
  fix gain fi th X_left y_left X_right y_right
  assume bs: "best_split pf X y = Inr (gain, Some (fi, th, (X_left, y_left), (X_right, y_right)))"
  from best_split_ok [OF bs]
  show "y_left \<noteq> []" "y_right \<noteq> []" "length X_left = length y_left"
       "length X_right = length y_right"
       "\<forall>x \<in> set X_left \<union> set X_right. fi < length x \<and> x ! fi \<noteq> PNone"
    by (simp_all add: best_ok_def split_ok_def)
  show "length y_left < length y" "length y_right < length y"
       "length X_left < length X" "length X_right < length X"
    by (rule best_split_smaller [OF bs])+
next
  fix t assume "build_tree pf self X y depth = Inr t"
  then show "height t < max 1 (length y)"
    by (rule build_tree_height_samples)
qed

theorem build_tree_terminates_witness:
  "best_split cpython train_X train_y =
     Inr (1 / 8, Some (0, PNum (1 / 2),
       ([[PNum 0, PNum 0], [PNum 0, PNum 1]], [PStr ''A'', PStr ''B'']),
       ([[PNum 1, PNum 0], [PNum 1, PNum 0]], [PStr ''B'', PStr ''B''])))
   \<and> length [PStr ''A'', PStr ''B''] < length train_y
   \<and> length [PStr ''B'', PStr ''B''] < length train_y
   \<and> build_tree cpython (init None 2) train_X train_y 0 =
     Inr (Node 0 None (PNum (1 / 2))
            (Node 1 None (PNum (1 / 2)) (Leaf (PStr ''A'')) (Leaf (PStr ''B'')))
            (Leaf (PStr ''B'')))
   \<and> build_tree_dom (cpython, init None 2, train_X, train_y, 0)"
  using build_tree_terminates [of cpython "init None 2" train_X train_y 0]
        best_split_train build_tree_train
  by (simp add: train_y_def)

section \<open>Split Finder: a numeric candidate of a mixed column\<close>

text \<open>
  Claim C2 at the column \<open>[1, 'a']\<close>, which holds a number and a string and is therefore
  categorical.  The candidates are the two observed values, no midpoint.  For the candidate
  \<open>'a'\<close> the rows are partitioned by equality.  For the candidate \<open>1\<close>
  \<open>split_dataset\<close> takes the numeric branch and compares \<open>'a' <= 1\<close>, which raises
  TypeError; so does \<open>best_split\<close>, in whichever order the set is iterated.
\<close>

theorem split_numeric_threshold_of_mixed_column:
  "column [[PNum 1], [PStr ''a'']] 0 = Inr [PNum 1, PStr ''a'']
   \<and> thresholds cpython [PNum 1, PStr ''a''] = [PNum 1, PStr ''a'']
   \<and> split_dataset [[PNum 1], [PStr ''a'']] [PStr ''A'', PStr ''B''] 0 (PStr ''a'')
       = Inr (([[PStr ''a'']], [PStr ''B'']), ([[PNum 1]], [PStr ''A'']))
   \<and> split_dataset [[PNum 1], [PStr ''a'']] [PStr ''A'', PStr ''B''] 0 (PNum 1) = Inl TypeError
   \<and> best_split cpython [[PNum 1], [PStr ''a'']] [PStr ''A'', PStr ''B''] = Inl TypeError
   \<and> best_split (cpython\<lparr>set_iter := rev\<rparr>) [[PNum 1], [PStr ''a'']] [PStr ''A'', PStr ''B''] = Inl TypeError"
  by code_simp

section \<open>fit: no validation of the input\<close>

lemma most_common1_Nil: "most_common1 [] = Inl IndexError"
  by (simp add: most_common1_def Counter_def)

lemma build_tree_empty: "build_tree pf self [] [] depth = Inl IndexError"
  by (subst build_tree.simps)
     (simp add: Let_def leaf_of_def most_common1_Nil best_split_def)

text \<open>
  Claim C3, as stated, fails on three samples with two labels: \<open>fit\<close> raises nothing and
  returns a tree that separates the first two rows.
\<close>

theorem fit_length_mismatch_counterexample:
  "fit cpython (init None 2) [[PNum 0], [PNum 1], [PNum 2]] [PStr ''A'', PStr ''B''] None None None
     = Inr \<lparr>max_depth = None, min_samples_split = 2,
            tree = Some (Node 0 None (PNum (1 / 2)) (Leaf (PStr ''A'')) (Leaf (PStr ''B''))),
            feature_names = None\<rparr>"
  by code_simp

lemma fit_error_iff:
  "fit pf self X y names X_val y_val = Inl e \<longleftrightarrow>
     build_tree pf (self\<lparr>feature_names := names\<rparr>) X y 0 = Inl e
     \<or> (\<exists>t Xv yv. build_tree pf (self\<lparr>feature_names := names\<rparr>) X y 0 = Inr t
            \<and> X_val = Some Xv \<and> y_val = Some yv \<and> prune t Xv yv = Inl e)"
  by (auto simp: fit_def Let_def split: sum.splits option.splits)

text \<open>
  Claim C3, amended.  \<open>fit\<close> has no check at entry and no error of its own: an error
  it raises is one raised by tree construction or, after construction, by pruning.  With
  an empty sample table and an empty label vector it always fails, by the IndexError that
  \<open>build_tree\<close> raises.  The other violations are not rejected as such.  There are
  inputs with fewer labels than samples, with more labels than samples, with rows of
  different lengths and with more feature names than features on which \<open>fit\<close>
  completes and returns a tree; and there are inputs with rows of different lengths and
  with fewer feature names than features on which it fails with an IndexError raised
  inside the construction.
\<close>

theorem fit_without_validation:
  "(\<forall>pf self X y names X_val y_val e.
      fit pf self X y names X_val y_val = Inl e \<longleftrightarrow>
        build_tree pf (self\<lparr>feature_names := names\<rparr>) X y 0 = Inl e
        \<or> (\<exists>t Xv yv. build_tree pf (self\<lparr>feature_names := names\<rparr>) X y 0 = Inr t
               \<and> X_val = Some Xv \<and> y_val = Some yv \<and> prune t Xv yv = Inl e))
   \<and> (\<forall>pf self names X_val y_val depth.
      build_tree pf self [] [] depth = Inl IndexError
      \<and> fit pf self [] [] names X_val y_val = Inl IndexError)
   \<and> fit cpython (init None 2) [[PNum 0], [PNum 1], [PNum 2]] [PStr ''A'', PStr ''B''] None None None
     = Inr \<lparr>max_depth = None, min_samples_split = 2,
            tree = Some (Node 0 None (PNum (1 / 2)) (Leaf (PStr ''A'')) (Leaf (PStr ''B''))),
            feature_names = None\<rparr>
   \<and> fit cpython (init None 2) [[PNum 0], [PNum 1]] [PStr ''A'', PStr ''B'', PStr ''B''] None None None
     = Inr \<lparr>max_depth = None, min_samples_split = 2,
            tree = Some (Node 0 None (PNum (1 / 2)) (Leaf (PStr ''A'')) (Leaf (PStr ''B''))),
            feature_names = None\<rparr>
   \<and> fit cpython (init None 2) [[PNum 0], [PNum 1, PNum 7]] [PStr ''A'', PStr ''B''] None None None
     = Inr \<lparr>max_depth = None, min_samples_split = 2,
            tree = Some (Node 0 None (PNum (1 / 2)) (Leaf (PStr ''A'')) (Leaf (PStr ''B''))),
            feature_names = None\<rparr>
   \<and> build_tree cpython (init None 2) [[PNum 0, PNum 5], [PNum 1]] [PStr ''A'', PStr ''B''] 0
     = Inl IndexError
   \<and> fit cpython (init None 2) [[PNum 0, PNum 5], [PNum 1]] [PStr ''A'', PStr ''B''] None None None
     = Inl IndexError
   \<and> fit cpython (init None 2) [[PNum 0], [PNum 1]] [PStr ''A'', PStr ''B'']
       (Some [''f'', ''g'', ''h'']) None None
     = Inr \<lparr>max_depth = None, min_samples_split = 2,
            tree = Some (Node 0 (Some ''f'') (PNum (1 / 2)) (Leaf (PStr ''A'')) (Leaf (PStr ''B''))),
            feature_names = Some [''f'', ''g'', ''h'']\<rparr>
   \<and> build_tree cpython ((init None 2)\<lparr>feature_names := Some [''f'']\<rparr>)
       [[PNum 0, PNum 0], [PNum 0, PNum 1]] [PStr ''A'', PStr ''B''] 0
     = Inl IndexError
   \<and> fit cpython (init None 2) [[PNum 0, PNum 0], [PNum 0, PNum 1]] [PStr ''A'', PStr ''B'']
       (Some [''f'']) None None
     = Inl IndexError"
proof (intro conjI allI)
  show "fit pf self X y names X_val y_val = Inl e \<longleftrightarrow>
        build_tree pf (self\<lparr>feature_names := names\<rparr>) X y 0 = Inl e
        \<or> (\<exists>t Xv yv. build_tree pf (self\<lparr>feature_names := names\<rparr>) X y 0 = Inr t
               \<and> X_val = Some Xv \<and> y_val = Some yv \<and> prune t Xv yv = Inl e)"
    for pf self X y names X_val y_val e
    by (rule fit_error_iff)
  show "build_tree pf self [] [] depth = Inl IndexError" for pf self depth
    by (rule build_tree_empty)
  show "fit pf self [] [] names X_val y_val = Inl IndexError"
    for pf self names X_val y_val
    by (simp add: fit_def build_tree_empty)
qed code_simp+

section \<open>Pruner: validation error of the whole tree\<close>

text \<open>
  Claim C1 at the tree built from the small training table and a validation set of five
  distinct rows.  Before pruning the tree predicts every validation label (no mismatch).
  \<open>prune\<close> collapses the left child, because over all five rows the subtree rooted there
  has three mismatches and the leaf has one, and then the root.  The pruned tree is a leaf
  with one mismatch.
\<close>

theorem prune_raises_validation_error:
  "build_tree cpython (init None 2) train_X train_y 0 =
     Inr (Node 0 None (PNum (1 / 2))
            (Node 1 None (PNum (1 / 2)) (Leaf (PStr ''A'')) (Leaf (PStr ''B'')))
            (Leaf (PStr ''B'')))
   \<and> validation_errors
         (Node 0 None (PNum (1 / 2))
            (Node 1 None (PNum (1 / 2)) (Leaf (PStr ''A'')) (Leaf (PStr ''B'')))
            (Leaf (PStr ''B''))) val_X val_y = Inr 0
   \<and> prune
         (Node 0 None (PNum (1 / 2))
            (Node 1 None (PNum (1 / 2)) (Leaf (PStr ''A'')) (Leaf (PStr ''B'')))
            (Leaf (PStr ''B''))) val_X val_y = Inr (Leaf (PStr ''B''))
   \<and> validation_errors (Leaf (PStr ''B'')) val_X val_y = Inr 1
   \<and> fit cpython (init None 2) train_X train_y None (Some val_X) (Some val_y) =
       Inr \<lparr>max_depth = None, min_samples_split = 2, tree = Some (Leaf (PStr ''B'')),
            feature_names = None\<rparr>"
  by code_simp

section \<open>Pruner: the empty validation set\<close>

lemma prune_empty_validation:
  "prune t [] [] = (if is_Leaf t then Inr t else Inl IndexError)"
proof (induction t)
  case (Leaf c)
  show ?case by simp
next
  case (Node fi nm th l r)
  show ?case
  proof (cases "is_Leaf l \<and> is_Leaf r")
    case True
    then show ?thesis
      using Node by (simp add: most_common1_def Counter_def)
  next
    case False
    then show ?thesis
      using Node by (auto split: sum.splits)
  qed
qed

text \<open>
  Claim C4 on the code.  With no validation sample and no label, \<open>prune\<close> returns a
  leaf unchanged and raises IndexError on every other tree: at the first node with two
  leaf children no label is eligible, and the majority over the empty label vector indexes
  an empty list.  \<open>fit\<close> with two empty validation lists raises it too.
\<close>

theorem prune_empty_validation_fails:
  "(\<forall>t. prune t [] [] = (if is_Leaf t then Inr t else Inl IndexError))
   \<and> prune (Node 0 None (PNum 1) (Leaf (PStr ''A'')) (Leaf (PStr ''B''))) [] [] = Inl IndexError
   \<and> fit cpython (init None 2) train_X train_y None (Some []) (Some []) = Inl IndexError"
proof (intro conjI allI)
  show "prune t [] [] = (if is_Leaf t then Inr t else Inl IndexError)" for t
    by (rule prune_empty_validation)
  show "prune (Node 0 None (PNum 1) (Leaf (PStr ''A'')) (Leaf (PStr ''B''))) [] [] = Inl IndexError"
    by (simp add: prune_empty_validation)
  show "fit cpython (init None 2) train_X train_y None (Some []) (Some []) = Inl IndexError"
    by (simp add: fit_def build_tree_train [unfolded init_def] init_def prune_empty_validation)
qed

section \<open>Pruner: the label of a collapsed node\<close>

text \<open>
  Claim C5 at a validation set holding the row \<open>[1]\<close> three times, labelled A, B, B.
  The label of each row is looked up at the first position of an equal row, so the
  combined labels are A, A, A and the node collapses to A; the labels aligned with the
  rows are A, B, B, with majority B.
\<close>

theorem prune_majority_duplicate_rows:
  "combined_loop dup_X dup_X dup_y 0 (PNum (3 / 2)) [] = Inr [PStr ''A'', PStr ''A'', PStr ''A'']
   \<and> prune (Node 0 None (PNum (3 / 2)) (Leaf (PStr ''C'')) (Leaf (PStr ''D''))) dup_X dup_y
       = Inr (Leaf (PStr ''A''))
   \<and> map snd (filter (\<lambda>(x, l). x ! 0 \<noteq> PNone) (zip dup_X dup_y)) = [PStr ''A'', PStr ''B'', PStr ''B'']
   \<and> most_common1 (map snd (filter (\<lambda>(x, l). x ! 0 \<noteq> PNone) (zip dup_X dup_y))) = Inr (PStr ''B'')"
  by code_simp

section \<open>Predictor: a missing value at an internal node\<close>

lemma most_common1_pair: "most_common1 [a, b] = Inr a"
  by (simp add: most_common1_def Counter_def)

text \<open>
  Claim C8.  When the sample's value at the feature index of an internal node is None and
  both recursive predictions return a label, \<open>predict_sample\<close> returns the most common of
  the two-element list of the left and the right prediction.  That label is one of the two
  and no label of the list is more frequent; when the two predictions differ it is the left
  one, and when they agree it is the label they agree on.
\<close>

theorem predict_sample_missing:
  assumes "getitem sample fi = Inr PNone"
      and "predict_sample l sample = Inr left_pred"
      and "predict_sample r sample = Inr right_pred"
  shows "predict_sample (Node fi nm th l r) sample = most_common1 [left_pred, right_pred]
       \<and> (\<exists>v. predict_sample (Node fi nm th l r) sample = Inr v
            \<and> v \<in> {left_pred, right_pred}
            \<and> (\<forall>w \<in> {left_pred, right_pred}.
                  count_list [left_pred, right_pred] w \<le> count_list [left_pred, right_pred] v))
       \<and> (left_pred \<noteq> right_pred \<longrightarrow> predict_sample (Node fi nm th l r) sample = Inr left_pred)
       \<and> (left_pred = right_pred \<longrightarrow> predict_sample (Node fi nm th l r) sample = Inr right_pred)"
  using assms by (simp add: most_common1_pair)

theorem predict_sample_missing_witness:
  "getitem [PNone] 0 = Inr PNone
   \<and> predict_sample (Leaf (PStr ''no'')) [PNone] = Inr (PStr ''no'')
   \<and> predict_sample (Leaf (PStr ''yes'')) [PNone] = Inr (PStr ''yes'')
   \<and> predict_sample (Node 0 None (PNum 3) (Leaf (PStr ''no'')) (Leaf (PStr ''yes''))) [PNone]
       = Inr (PStr ''no'')"
  using predict_sample_missing [of "[PNone]" 0 "Leaf (PStr ''no'')" "PStr ''no''"
      "Leaf (PStr ''yes'')" "PStr ''yes''" None "PNum 3"]
  by (simp add: getitem_def)

section \<open>predict before any fit\<close>

lemma collect_Cons_Inl: "f x = Inl e \<Longrightarrow> collect f (x # xs) = Inl e"
  by simp

text \<open>
  Claim C10, as stated, fails on the empty sample list: the list comprehension of
  \<open>predict\<close> never touches the tree, and the result is the empty list of labels.
\<close>

theorem predict_unfitted_counterexample:
  "predict (init None 2) [] = Inr []"
  by (simp add: predict_def)

text \<open>
  Claim C10, amended.  On an instance whose tree is still None, as \<open>init\<close> leaves it,
  \<open>predict\<close> raises TypeError for every non-empty sample list.
\<close>

theorem predict_unfitted_nonempty:
  assumes "tree self = None" and "X \<noteq> []"
  shows "predict self X = Inl TypeError"
proof -
  from assms(2) obtain x xs where X: "X = x # xs"
    by (cases X) auto
  have "predict_node (tree self) x = Inl TypeError"
    using assms(1) by (simp add: predict_node_def)
  then show ?thesis
    unfolding predict_def X by (rule collect_Cons_Inl)
qed

theorem predict_unfitted_nonempty_witness:
  "tree (init None 2) = None \<and> [[PNum 1]] \<noteq> []
   \<and> predict (init None 2) [[PNum 1]] = Inl TypeError"
  using predict_unfitted_nonempty [of "init None 2" "[[PNum 1]]"]
  by (simp add: init_def)

end
